theory Spec2Isabelle
  imports Main "HOL-Library.Multiset"
begin

section \<open>Go values: errors, panics, slices\<close>

text \<open>
  A Go \<open>error\<close> is identified with its message (\<open>err.Error()\<close>); \<open>fmt.Errorf\<close> with
  a \<open>%s\<close> verb splices the message of the wrapped error into the new one. A function
  returning \<open>(T, error)\<close> returns \<open>error + T\<close> (\<open>Inl\<close> the error), a function returning
  only \<open>error\<close> returns \<open>error option\<close> (\<open>None\<close> is \<open>nil\<close>). A run-time panic is a
  result of its own.
\<close>

type_synonym error = string

datatype 'a exec = Panics string | Returns 'a

text \<open>Indexing a slice: out of range is a run-time panic.\<close>

definition index :: "'a list \<Rightarrow> int \<Rightarrow> 'a exec" where
  "index xs i =
     (if 0 \<le> i \<and> i < int (length xs) then Returns (xs ! nat i)
      else Panics ''index out of range'')"

text \<open>
  \<open>rand.Intn(n)\<close> of the standard library panics when \<open>n <= 0\<close>; otherwise it reduces
  the raw draw \<open>v\<close> that the generator accepted modulo \<open>n\<close>. The draw is a parameter of
  the model.
\<close>

definition rand_Intn :: "nat \<Rightarrow> int \<Rightarrow> int exec" where
  "rand_Intn v n =
     (if n \<le> 0 then Panics ''invalid argument to Intn'' else Returns (int v mod n))"

section \<open>The router and what it depends on\<close>

text \<open>
  The \<open>Storage\<close> interface is declared outside \<open>router.go\<close>; its methods are taken as
  parameters, with the signatures \<open>router.go\<close> calls them at. Every method acts on the
  state \<open>'w\<close> behind the router (the routing store and the cluster).
\<close>

record 'w Storage =
  storage_IdleGet :: "string \<Rightarrow> 'w \<Rightarrow> (error + bool) \<times> 'w"
  storage_IdleSet :: "string \<Rightarrow> bool \<Rightarrow> 'w \<Rightarrow> error option \<times> 'w"
  storage_RequestBegin :: "string \<Rightarrow> 'w \<Rightarrow> error option \<times> 'w"
  storage_RequestEnd :: "string \<Rightarrow> 'w \<Rightarrow> error option \<times> 'w"
  storage_TargetAdd :: "string \<Rightarrow> string \<Rightarrow> 'w \<Rightarrow> error option \<times> 'w"
  storage_TargetList :: "string \<Rightarrow> 'w \<Rightarrow> (error + string list) \<times> 'w"
  storage_TargetRemove :: "string \<Rightarrow> string \<Rightarrow> 'w \<Rightarrow> error option \<times> 'w"

text \<open>
  The fields of \<open>Router\<close> that the functions below use: the storage, and the methods
  \<open>HostUnidle\<close> and \<open>HostIdleStatus\<close>, which are defined in another file of the package
  and are parameters here.
\<close>

record 'w Router =
  storage :: "'w Storage"
  HostUnidle :: "string \<Rightarrow> 'w \<Rightarrow> error option \<times> 'w"
  HostIdleStatus :: "string \<Rightarrow> 'w \<Rightarrow> (error + bool) \<times> 'w"

definition TargetList :: "'w Router \<Rightarrow> string \<Rightarrow> 'w \<Rightarrow> (error + string list) \<times> 'w" where
  "TargetList r host w = storage_TargetList (storage r) host w"

definition RequestEnd :: "'w Router \<Rightarrow> string \<Rightarrow> 'w \<Rightarrow> error option \<times> 'w" where
  "RequestEnd r host w = storage_RequestEnd (storage r) host w"

text \<open>
  \<open>TargetRemove\<close> and \<open>TargetAdd\<close> first print a log line to standard output, which is
  not part of the state modelled here.
\<close>

definition TargetRemove :: "'w Router \<Rightarrow> string \<Rightarrow> string \<Rightarrow> 'w \<Rightarrow> error option \<times> 'w" where
  "TargetRemove r host target w = storage_TargetRemove (storage r) host target w"

text \<open>
  \<open>Route\<close>: the Go function returns the pair \<open>("", err)\<close> on failure and
  \<open>(target, nil)\<close> on success; \<open>v\<close> is the raw draw of the random generator.
\<close>

definition Route :: "'w Router \<Rightarrow> nat \<Rightarrow> string \<Rightarrow> 'w \<Rightarrow> (error + string) exec \<times> 'w" where
  "Route r v host w =
     (case TargetList r host w of
        (Inl err, w') \<Rightarrow> (Returns (Inl ''no backends available''), w')
      | (Inr ts, w') \<Rightarrow>
          if int (length ts) < 1 then (Returns (Inl ''no backends available''), w')
          else
            (case rand_Intn v (int (length ts)) of
               Panics p \<Rightarrow> (Panics p, w')
             | Returns i \<Rightarrow>
                 (case index ts i of
                    Panics p \<Rightarrow> (Panics p, w')
                  | Returns t \<Rightarrow> (Returns (Inr t), w'))))"

definition RequestBegin :: "'w Router \<Rightarrow> string \<Rightarrow> 'w \<Rightarrow> error option \<times> 'w" where
  "RequestBegin r host w =
     (case storage_IdleGet (storage r) host w of
        (Inl err, w1) \<Rightarrow> (Some (''could not fetch idle status: '' @ err), w1)
      | (Inr idle, w1) \<Rightarrow>
          if idle then
            (case HostUnidle r host w1 of
               (Some err, w2) \<Rightarrow> (Some (''could not unidle: '' @ err), w2)
             | (None, w2) \<Rightarrow> storage_RequestBegin (storage r) host w2)
          else storage_RequestBegin (storage r) host w1)"

definition TargetAdd :: "'w Router \<Rightarrow> string \<Rightarrow> string \<Rightarrow> 'w \<Rightarrow> error option \<times> 'w" where
  "TargetAdd r host target w =
     (case storage_TargetAdd (storage r) host target w of
        (Some err, w1) \<Rightarrow> (Some err, w1)
      | (None, w1) \<Rightarrow>
          (case HostIdleStatus r host w1 of
             (Inl err, w2) \<Rightarrow> (Some err, w2)
           | (Inr idle, w2) \<Rightarrow>
               (case storage_IdleSet (storage r) host idle w2 of
                  (Some err, w3) \<Rightarrow> (Some err, w3)
                | (None, w3) \<Rightarrow> (None, w3))))"

section \<open>A concrete store and cluster\<close>

text \<open>
  Modelled from the spec: the in-memory backend of the Routing Store and the cluster's
  scale state are not in \<open>router.go\<close>. They follow the contract of the spec
  (section 4.1): \<open>TargetAdd\<close> and \<open>TargetRemove\<close> are idempotent, \<open>TargetList\<close> of an
  unknown host is empty, an unknown host is not idle, \<open>RequestBegin\<close> and \<open>RequestEnd\<close>
  adjust the in-flight counter, and a backend I/O failure makes every operation fail.
  A host is scaled to zero when it has no replica; unidling scales it to one replica
  and clears the flag. These definitions give the theorems below concrete instances;
  no theorem about \<open>router.go\<close> depends on them.
\<close>

record world =
  mem_targets :: "string \<Rightarrow> string list"
  mem_idle :: "string \<Rightarrow> bool"
  mem_count :: "string \<Rightarrow> nat"
  mem_fault :: "error option"
  cluster_replicas :: "string \<Rightarrow> nat"
  cluster_fault :: "error option"

text \<open>Modelled from the spec: reading the idle flag; a host the store does not know is not idle.\<close>

definition memory_IdleGet :: "string \<Rightarrow> world \<Rightarrow> (error + bool) \<times> world" where
  "memory_IdleGet host w =
     (case mem_fault w of Some e \<Rightarrow> (Inl e, w) | None \<Rightarrow> (Inr (mem_idle w host), w))"

text \<open>Modelled from the spec: writing the idle flag.\<close>

definition memory_IdleSet :: "string \<Rightarrow> bool \<Rightarrow> world \<Rightarrow> error option \<times> world" where
  "memory_IdleSet host b w =
     (case mem_fault w of
        Some e \<Rightarrow> (Some e, w)
      | None \<Rightarrow> (None, w\<lparr>mem_idle := (mem_idle w)(host := b)\<rparr>))"

text \<open>Modelled from the spec: a request begins: the in-flight counter of the host goes up.\<close>

definition memory_RequestBegin :: "string \<Rightarrow> world \<Rightarrow> error option \<times> world" where
  "memory_RequestBegin host w =
     (case mem_fault w of
        Some e \<Rightarrow> (Some e, w)
      | None \<Rightarrow> (None, w\<lparr>mem_count := (mem_count w)(host := mem_count w host + 1)\<rparr>))"

text \<open>Modelled from the spec: a request ends: the in-flight counter of the host goes down.\<close>

definition memory_RequestEnd :: "string \<Rightarrow> world \<Rightarrow> error option \<times> world" where
  "memory_RequestEnd host w =
     (case mem_fault w of
        Some e \<Rightarrow> (Some e, w)
      | None \<Rightarrow> (None, w\<lparr>mem_count := (mem_count w)(host := mem_count w host - 1)\<rparr>))"

text \<open>Modelled from the spec: adding a target to the set of a host, idempotent.\<close>

definition memory_TargetAdd :: "string \<Rightarrow> string \<Rightarrow> world \<Rightarrow> error option \<times> world" where
  "memory_TargetAdd host target w =
     (case mem_fault w of
        Some e \<Rightarrow> (Some e, w)
      | None \<Rightarrow>
          (None, w\<lparr>mem_targets := (mem_targets w)
             (host := (if target \<in> set (mem_targets w host) then mem_targets w host
                       else mem_targets w host @ [target]))\<rparr>))"

text \<open>Modelled from the spec: the targets of a host, empty for a host the store does not know.\<close>

definition memory_TargetList :: "string \<Rightarrow> world \<Rightarrow> (error + string list) \<times> world" where
  "memory_TargetList host w =
     (case mem_fault w of Some e \<Rightarrow> (Inl e, w) | None \<Rightarrow> (Inr (mem_targets w host), w))"

text \<open>Modelled from the spec: removing a target from the set of a host, idempotent.\<close>

definition memory_TargetRemove :: "string \<Rightarrow> string \<Rightarrow> world \<Rightarrow> error option \<times> world" where
  "memory_TargetRemove host target w =
     (case mem_fault w of
        Some e \<Rightarrow> (Some e, w)
      | None \<Rightarrow>
          (None, w\<lparr>mem_targets := (mem_targets w)
             (host := removeAll target (mem_targets w host))\<rparr>))"

text \<open>Modelled from the spec: the in-memory backend as a \<open>Storage\<close>.\<close>

definition StorageMemory :: "world Storage" where
  "StorageMemory =
     \<lparr>storage_IdleGet = memory_IdleGet, storage_IdleSet = memory_IdleSet,
      storage_RequestBegin = memory_RequestBegin, storage_RequestEnd = memory_RequestEnd,
      storage_TargetAdd = memory_TargetAdd, storage_TargetList = memory_TargetList,
      storage_TargetRemove = memory_TargetRemove\<rparr>"

text \<open>Modelled from the spec: a host is scaled to zero when the cluster runs no replica of it.\<close>

definition cluster_HostIdleStatus :: "string \<Rightarrow> world \<Rightarrow> (error + bool) \<times> world" where
  "cluster_HostIdleStatus host w =
     (case cluster_fault w of
        Some e \<Rightarrow> (Inl e, w)
      | None \<Rightarrow> (Inr (cluster_replicas w host = 0), w))"

text \<open>Modelled from the spec: unidling scales the host to one replica and clears its idle flag.\<close>

definition cluster_HostUnidle :: "string \<Rightarrow> world \<Rightarrow> error option \<times> world" where
  "cluster_HostUnidle host w =
     (case cluster_fault w of
        Some e \<Rightarrow> (Some e, w)
      | None \<Rightarrow>
          (None, w\<lparr>mem_idle := (mem_idle w)(host := False),
                    cluster_replicas := (cluster_replicas w)(host := 1)\<rparr>))"

text \<open>Modelled from the spec: a router over the in-memory backend and the cluster.\<close>

definition router0 :: "world Router" where
  "router0 =
     \<lparr>storage = StorageMemory, HostUnidle = cluster_HostUnidle,
      HostIdleStatus = cluster_HostIdleStatus\<rparr>"

text \<open>
  Modelled from the spec: an empty world, and one where the host \<open>app.example.com\<close>
  has two targets.
\<close>

definition world0 :: world where
  "world0 =
     \<lparr>mem_targets = (\<lambda>_. []), mem_idle = (\<lambda>_. False), mem_count = (\<lambda>_. 0),
      mem_fault = None, cluster_replicas = (\<lambda>_. 0), cluster_fault = None\<rparr>"

definition world1 :: world where
  "world1 =
     world0\<lparr>mem_targets := (\<lambda>_. [])
       (''app.example.com'' := [''http://10.0.0.1:3000'', ''http://10.0.0.2:3000''])\<rparr>"

text \<open>
  Modelled from the spec: a world where \<open>app.example.com\<close> is idle, scaled to zero,
  and has three requests in flight.
\<close>

definition world2 :: world where
  "world2 =
     world1\<lparr>mem_idle := (\<lambda>_. False)(''app.example.com'' := True),
            mem_count := (\<lambda>_. 0)(''app.example.com'' := 3)\<rparr>"

text \<open>
  Modelled from the spec: a world where the idle flag of \<open>app.example.com\<close> is still
  set although its backend runs two replicas again.
\<close>

definition world3 :: world where
  "world3 = world2\<lparr>cluster_replicas := (\<lambda>_. 0)(''app.example.com'' := 2)\<rparr>"

section \<open>Certificates\<close>

text \<open>
  \<open>tls.ClientHelloInfo\<close>: the callbacks read its \<open>ServerName\<close> only.
\<close>

record ClientHelloInfo =
  ServerName :: string

text \<open>
  The certificate cache \<open>certs\<close> is a \<open>sync.Map\<close>: its values are of type
  \<open>interface{}\<close>, and a lookup asserts that the value is a \<open>tls.Certificate\<close>.
\<close>

datatype 'c cache_value = CertificateValue 'c | OtherValue

text \<open>
  \<open>generateCertificateAutocert\<close>: \<open>helpers.CertificateSelfSigned\<close> (another package of
  the repository) and the \<open>GetCertificate\<close> of the \<open>autocert.Manager\<close> are parameters.
\<close>

definition generateCertificateAutocert ::
  "(string \<Rightarrow> 'w \<Rightarrow> (error + 'c) \<times> 'w) \<Rightarrow> (ClientHelloInfo \<Rightarrow> 'w \<Rightarrow> (error + 'c) \<times> 'w)
    \<Rightarrow> ClientHelloInfo \<Rightarrow> 'w \<Rightarrow> (error + 'c) \<times> 'w" where
  "generateCertificateAutocert CertificateSelfSigned GetCertificate hello w =
     (if ServerName hello = [] then CertificateSelfSigned ''convox'' w
      else GetCertificate hello w)"

text \<open>
  \<open>generateCertificateCA\<close>: the method \<open>ca\<close> of the router (another file of the
  package) and \<open>helpers.CertificateCA\<close> are parameters. The function returns its result,
  the cache and the state.
\<close>

definition generateCertificateCA ::
  "('w \<Rightarrow> (error + 'c) \<times> 'w) \<Rightarrow> (string \<Rightarrow> 'c \<Rightarrow> 'w \<Rightarrow> (error + 'c) \<times> 'w)
    \<Rightarrow> ClientHelloInfo \<Rightarrow> (string \<rightharpoonup> 'c cache_value) \<Rightarrow> 'w
    \<Rightarrow> (error + 'c) \<times> (string \<rightharpoonup> 'c cache_value) \<times> 'w" where
  "generateCertificateCA ca CertificateCA hello certs w =
     (let host = ServerName hello in
      case certs host of
        Some (CertificateValue c) \<Rightarrow> (Inr c, certs, w)
      | _ \<Rightarrow>
          (case ca w of
             (Inl err, w1) \<Rightarrow> (Inl err, certs, w1)
           | (Inr k, w1) \<Rightarrow>
               (case CertificateCA host k w1 of
                  (Inl err, w2) \<Rightarrow> (Inl err, certs, w2)
                | (Inr c, w2) \<Rightarrow> (Inr c, certs(host \<mapsto> CertificateValue c), w2))))"

text \<open>
  Modelled from the spec: the helpers that make certificates and the CA of the router
  are not in \<open>router.go\<close>. A certificate is a symbolic value: self-signed for a name,
  signed by a CA for a host with a serial number, or issued by the ACME manager for a
  name. The state is the number of certificates signed so far.
\<close>

datatype certificate =
  SelfSigned string | CASigned string certificate nat | Issued string

text \<open>Modelled from the spec: a self-signed certificate for a name.\<close>

definition helpers_CertificateSelfSigned :: "string \<Rightarrow> nat \<Rightarrow> (error + certificate) \<times> nat" where
  "helpers_CertificateSelfSigned name n = (Inr (SelfSigned name), n)"

text \<open>Modelled from the spec: a certificate for a host signed by the CA, with the next serial number.\<close>

definition helpers_CertificateCA ::
  "string \<Rightarrow> certificate \<Rightarrow> nat \<Rightarrow> (error + certificate) \<times> nat" where
  "helpers_CertificateCA host k n = (Inr (CASigned host k n), Suc n)"

text \<open>Modelled from the spec: the CA certificate of the router.\<close>

definition router_ca :: "nat \<Rightarrow> (error + certificate) \<times> nat" where
  "router_ca n = (Inr (SelfSigned ''ca''), n)"

text \<open>
  The \<open>GetCertificate\<close> of an ACME manager: it refuses a handshake without a server
  name and issues a certificate for every other name.
\<close>

definition manager_GetCertificate :: "ClientHelloInfo \<Rightarrow> nat \<Rightarrow> (error + certificate) \<times> nat" where
  "manager_GetCertificate hello n =
     (if ServerName hello = [] then (Inl ''acme/autocert: missing server name'', n)
      else (Inr (Issued (ServerName hello)), n))"

section \<open>URLs of the Go standard library\<close>

text \<open>
  \<open>net/url\<close> and \<open>net/http\<close> belong to the Go standard library, not to the repository.
  The definitions of this section and of the section on parsing follow the library as
  of Go 1.13, current when \<open>router.go\<close> was written. A string is a list of bytes.
\<close>

datatype encoding =
  encodePath | encodePathSegment | encodeHost | encodeZone | encodeUserPassword
  | encodeQueryComponent | encodeFragment

definition isAlnum :: "char \<Rightarrow> bool" where
  "isAlnum c =
     (let n = (of_char c :: nat)
      in (65 \<le> n \<and> n \<le> 90) \<or> (97 \<le> n \<and> n \<le> 122) \<or> (48 \<le> n \<and> n \<le> 57))"

definition shouldEscape :: "char \<Rightarrow> encoding \<Rightarrow> bool" where
  "shouldEscape c mode =
     (if isAlnum c then False
      else if (mode = encodeHost \<or> mode = encodeZone) \<and> c \<in> set ''!$&'()*+,;=:[]<>\"'' then False
      else if c \<in> set ''-_.~'' then False
      else if c \<in> set ''$&+,/:;=?@'' \<and> mode = encodePath then c = CHR ''?''
      else if c \<in> set ''$&+,/:;=?@'' \<and> mode = encodePathSegment then c \<in> set ''/;,?''
      else if c \<in> set ''$&+,/:;=?@'' \<and> mode = encodeUserPassword then c \<in> set ''@/?:''
      else if c \<in> set ''$&+,/:;=?@'' \<and> mode = encodeQueryComponent then True
      else if c \<in> set ''$&+,/:;=?@'' \<and> mode = encodeFragment then False
      else if mode = encodeFragment \<and> c \<in> set ''!()*'' then False
      else True)"

definition upperhex :: "nat \<Rightarrow> char" where
  "upperhex n = ''0123456789ABCDEF'' ! n"

definition escape_byte :: "encoding \<Rightarrow> char \<Rightarrow> string" where
  "escape_byte mode c =
     (if c = CHR '' '' \<and> mode = encodeQueryComponent then ''+''
      else if shouldEscape c mode then
        [CHR ''%'', upperhex ((of_char c :: nat) div 16), upperhex ((of_char c :: nat) mod 16)]
      else [c])"

definition escape :: "string \<Rightarrow> encoding \<Rightarrow> string" where
  "escape s mode = concat (map (escape_byte mode) s)"

text \<open>
  \<open>url.URL\<close>, without the field \<open>User\<close>; \<open>URL_String\<close> below is \<open>String\<close> for a URL
  whose \<open>User\<close> is nil and whose \<open>RawPath\<close> is empty, as is the URL that \<open>redirectHTTPS\<close>
  builds.
\<close>

record URL =
  Scheme :: string
  Opaque :: string
  Host :: string
  Path :: string
  RawPath :: string
  ForceQuery :: bool
  RawQuery :: string
  Fragment :: string

definition EscapedPath :: "URL \<Rightarrow> string" where
  "EscapedPath u = (if Path u = ''*'' then ''*'' else escape (Path u) encodePath)"

definition relative_prefix :: "string \<Rightarrow> string" where
  "relative_prefix path =
     (if CHR '':'' \<in> set path \<and> CHR ''/'' \<notin> set (takeWhile (\<lambda>c. c \<noteq> CHR '':'') path)
      then ''./'' else [])"

definition URL_String :: "URL \<Rightarrow> string" where
  "URL_String u =
     (let buf0 = (if Scheme u \<noteq> [] then Scheme u @ '':'' else []);
          buf1 =
            (if Opaque u \<noteq> [] then buf0 @ Opaque u
             else
               (let b1 =
                      (if Scheme u \<noteq> [] \<or> Host u \<noteq> [] then
                         buf0 @ (if Host u \<noteq> [] \<or> Path u \<noteq> [] then ''//'' else [])
                           @ (if Host u \<noteq> [] then escape (Host u) encodeHost else [])
                       else buf0);
                    path = EscapedPath u;
                    b2 = (if path \<noteq> [] \<and> hd path \<noteq> CHR ''/'' \<and> Host u \<noteq> []
                          then b1 @ ''/'' else b1);
                    b3 = (if b2 = [] then relative_prefix path else b2)
                in b3 @ path));
          buf2 = (if ForceQuery u \<or> RawQuery u \<noteq> [] then buf1 @ ''?'' @ RawQuery u else buf1)
      in if Fragment u \<noteq> [] then buf2 @ ''#'' @ escape (Fragment u) encodeFragment else buf2)"

text \<open>The zero value of \<open>url.URL\<close>.\<close>

definition URL_zero :: URL where
  "URL_zero =
     \<lparr>Scheme = [], Opaque = [], Host = [], Path = [], RawPath = [], ForceQuery = False,
      RawQuery = [], Fragment = []\<rparr>"

section \<open>The redirect to HTTPS\<close>





definition lowerhex :: "nat \<Rightarrow> char" where
  "lowerhex n = ''0123456789abcdef'' ! n"

definition hexEscapeNonASCII :: "string \<Rightarrow> string" where
  "hexEscapeNonASCII s =
     concat (map (\<lambda>c. if 128 \<le> (of_char c :: nat)
                       then [CHR ''%'', lowerhex ((of_char c :: nat) div 16),
                             lowerhex ((of_char c :: nat) mod 16)]
                       else [c]) s)"








section \<open>Parsing a URL\<close>

text \<open>
  \<open>url.Parse\<close> and \<open>Hostname\<close> of the Go standard library. \<open>Parse\<close> wraps the
  error of the step that failed in a \<open>url.Error\<close> that names the operation and the URL;
  the model returns that error. The user information of the authority is validated as
  \<open>Parse\<close> does, but not kept.
\<close>

datatype url_error =
  InvalidControlCharacter | MissingProtocolScheme | FirstPathSegmentColon
  | EscapeError string | InvalidHostError string | MissingBracket | InvalidPort string
  | InvalidUserinfo

definition HasPrefix :: "string \<Rightarrow> string \<Rightarrow> bool" where
  "HasPrefix s p = (take (length p) s = p)"

text \<open>\<open>strings.Index\<close> and \<open>strings.LastIndex\<close>; \<open>None\<close> is -1.\<close>

fun Index :: "string \<Rightarrow> string \<Rightarrow> nat option" where
  "Index [] sep = (if sep = [] then Some 0 else None)"
| "Index (c # s) sep =
     (if HasPrefix (c # s) sep then Some 0 else map_option Suc (Index s sep))"

definition LastIndexByte :: "string \<Rightarrow> char \<Rightarrow> nat option" where
  "LastIndexByte s c =
     (if c \<in> set s then Some (length s - 1 - length (takeWhile (\<lambda>d. d \<noteq> c) (rev s))) else None)"

definition split :: "string \<Rightarrow> string \<Rightarrow> bool \<Rightarrow> string \<times> string" where
  "split s c cutc =
     (case Index s c of
        None \<Rightarrow> (s, [])
      | Some i \<Rightarrow> if cutc then (take i s, drop (i + length c) s) else (take i s, drop i s))"

definition stringContainsCTLByte :: "string \<Rightarrow> bool" where
  "stringContainsCTLByte s = list_ex (\<lambda>c. (of_char c :: nat) < 32 \<or> (of_char c :: nat) = 127) s"

definition isLetter :: "char \<Rightarrow> bool" where
  "isLetter c =
     (let n = (of_char c :: nat) in (97 \<le> n \<and> n \<le> 122) \<or> (65 \<le> n \<and> n \<le> 90))"

definition isDigit :: "char \<Rightarrow> bool" where
  "isDigit c = (let n = (of_char c :: nat) in 48 \<le> n \<and> n \<le> 57)"

definition toLower :: "char \<Rightarrow> char" where
  "toLower c =
     (let n = (of_char c :: nat) in if 65 \<le> n \<and> n \<le> 90 then char_of (n + 32) else c)"

text \<open>
  \<open>getscheme\<close>: \<open>seen\<close> are the bytes before the one looked at, so \<open>seen = []\<close> is
  \<open>i == 0\<close>.
\<close>

fun getscheme_loop :: "string \<Rightarrow> string \<Rightarrow> string \<Rightarrow> url_error + (string \<times> string)" where
  "getscheme_loop rawurl seen [] = Inr ([], rawurl)"
| "getscheme_loop rawurl seen (c # cs) =
     (if isLetter c then getscheme_loop rawurl (seen @ [c]) cs
      else if isDigit c \<or> c \<in> set ''+-.'' then
        (if seen = [] then Inr ([], rawurl) else getscheme_loop rawurl (seen @ [c]) cs)
      else if c = CHR '':'' then
        (if seen = [] then Inl MissingProtocolScheme else Inr (seen, cs))
      else Inr ([], rawurl))"

definition getscheme :: "string \<Rightarrow> url_error + (string \<times> string)" where
  "getscheme rawurl = getscheme_loop rawurl [] rawurl"

definition ishex :: "char \<Rightarrow> bool" where
  "ishex c =
     (let n = (of_char c :: nat)
      in (48 \<le> n \<and> n \<le> 57) \<or> (97 \<le> n \<and> n \<le> 102) \<or> (65 \<le> n \<and> n \<le> 70))"

definition unhex :: "char \<Rightarrow> nat" where
  "unhex c =
     (let n = (of_char c :: nat)
      in if 48 \<le> n \<and> n \<le> 57 then n - 48
         else if 97 \<le> n \<and> n \<le> 102 then n - 97 + 10
         else if 65 \<le> n \<and> n \<le> 70 then n - 65 + 10
         else 0)"

fun unescape :: "string \<Rightarrow> encoding \<Rightarrow> url_error + string" where
  "unescape [] mode = Inr []"
| "unescape (c # s) mode =
     (if c = CHR ''%'' then
        (case s of
           h1 # h2 # rest \<Rightarrow>
             if \<not> ishex h1 \<or> \<not> ishex h2 then Inl (EscapeError [c, h1, h2])
             else if mode = encodeHost \<and> unhex h1 < 8 \<and> [c, h1, h2] \<noteq> ''%25''
               then Inl (EscapeError [c, h1, h2])
             else if mode = encodeZone \<and> [c, h1, h2] \<noteq> ''%25''
                 \<and> (char_of (16 * unhex h1 + unhex h2) :: char) \<noteq> CHR '' ''
                 \<and> shouldEscape (char_of (16 * unhex h1 + unhex h2)) encodeHost
               then Inl (EscapeError [c, h1, h2])
             else
               (case unescape rest mode of
                  Inl e \<Rightarrow> Inl e
                | Inr t \<Rightarrow> Inr (char_of (16 * unhex h1 + unhex h2) # t))
         | _ \<Rightarrow> Inl (EscapeError (c # s)))
      else if c = CHR ''+'' then
        (case unescape s mode of
           Inl e \<Rightarrow> Inl e
         | Inr t \<Rightarrow> Inr ((if mode = encodeQueryComponent then CHR '' '' else c) # t))
      else if (mode = encodeHost \<or> mode = encodeZone) \<and> (of_char c :: nat) < 128
          \<and> shouldEscape c encodeHost
        then Inl (InvalidHostError [c])
      else (case unescape s mode of Inl e \<Rightarrow> Inl e | Inr t \<Rightarrow> Inr (c # t)))"

definition validUserinfo :: "string \<Rightarrow> bool" where
  "validUserinfo s = list_all (\<lambda>c. isAlnum c \<or> c \<in> set ''-._:~!$&'()*+,;=%@'') s"

definition validOptionalPort :: "string \<Rightarrow> bool" where
  "validOptionalPort port =
     (case port of
        [] \<Rightarrow> True
      | c # ds \<Rightarrow> c = CHR '':'' \<and> list_all isDigit ds)"

definition parseHost :: "string \<Rightarrow> url_error + string" where
  "parseHost host =
     (if HasPrefix host ''['' then
        (case LastIndexByte host CHR '']'' of
           None \<Rightarrow> Inl MissingBracket
         | Some i \<Rightarrow>
             if \<not> validOptionalPort (drop (i + 1) host) then Inl (InvalidPort (drop (i + 1) host))
             else
               (case Index (take i host) ''%25'' of
                  Some zone \<Rightarrow>
                    (case unescape (take zone host) encodeHost of
                       Inl e \<Rightarrow> Inl e
                     | Inr host1 \<Rightarrow>
                         (case unescape (drop zone (take i host)) encodeZone of
                            Inl e \<Rightarrow> Inl e
                          | Inr host2 \<Rightarrow>
                              (case unescape (drop i host) encodeHost of
                                 Inl e \<Rightarrow> Inl e
                               | Inr host3 \<Rightarrow> Inr (host1 @ host2 @ host3))))
                | None \<Rightarrow> unescape host encodeHost))
      else
        (case LastIndexByte host CHR '':'' of
           Some i \<Rightarrow>
             if \<not> validOptionalPort (drop i host) then Inl (InvalidPort (drop i host))
             else unescape host encodeHost
         | None \<Rightarrow> unescape host encodeHost))"

text \<open>
  \<open>parseAuthority\<close>: the host of the authority; the user information before the last
  \<open>@\<close> must be valid and its name and password must unescape.
\<close>

definition parseAuthority :: "string \<Rightarrow> url_error + string" where
  "parseAuthority authority =
     (case LastIndexByte authority CHR ''@'' of
        None \<Rightarrow> parseHost authority
      | Some i \<Rightarrow>
          (case parseHost (drop (i + 1) authority) of
             Inl e \<Rightarrow> Inl e
           | Inr host \<Rightarrow>
               (let userinfo = take i authority in
                if \<not> validUserinfo userinfo then Inl InvalidUserinfo
                else if CHR '':'' \<notin> set userinfo then
                  (case unescape userinfo encodeUserPassword of
                     Inl e \<Rightarrow> Inl e
                   | Inr _ \<Rightarrow> Inr host)
                else
                  (case unescape (fst (split userinfo '':'' True)) encodeUserPassword of
                     Inl e \<Rightarrow> Inl e
                   | Inr _ \<Rightarrow>
                       (case unescape (snd (split userinfo '':'' True)) encodeUserPassword of
                          Inl e \<Rightarrow> Inl e
                        | Inr _ \<Rightarrow> Inr host)))))"

definition setPath :: "URL \<Rightarrow> string \<Rightarrow> url_error + URL" where
  "setPath u p =
     (case unescape p encodePath of
        Inl e \<Rightarrow> Inl e
      | Inr path \<Rightarrow>
          Inr (u\<lparr>Path := path, RawPath := (if p = escape path encodePath then [] else p)\<rparr>))"

text \<open>\<open>parse(rawurl, false)\<close>: the URL without its fragment.\<close>

definition url_parse :: "string \<Rightarrow> url_error + URL" where
  "url_parse rawurl =
     (if stringContainsCTLByte rawurl then Inl InvalidControlCharacter
      else if rawurl = ''*'' then Inr (URL_zero\<lparr>Path := ''*''\<rparr>)
      else
        (case getscheme rawurl of
           Inl e \<Rightarrow> Inl e
         | Inr (scheme, rest0) \<Rightarrow>
             (let u0 = URL_zero\<lparr>Scheme := map toLower scheme\<rparr>;
                  force = (rest0 \<noteq> [] \<and> last rest0 = CHR ''?''
                           \<and> length (filter (\<lambda>c. c = CHR ''?'') rest0) = 1);
                  rest = (if force then butlast rest0 else fst (split rest0 ''?'' True));
                  u1 = (if force then u0\<lparr>ForceQuery := True\<rparr>
                        else u0\<lparr>RawQuery := snd (split rest0 ''?'' True)\<rparr>)
              in if \<not> HasPrefix rest ''/'' \<and> Scheme u1 \<noteq> [] then Inr (u1\<lparr>Opaque := rest\<rparr>)
                 else if \<not> HasPrefix rest ''/''
                     \<and> CHR '':'' \<in> set (takeWhile (\<lambda>c. c \<noteq> CHR ''/'') rest)
                   then Inl FirstPathSegmentColon
                 else if (Scheme u1 \<noteq> [] \<or> \<not> HasPrefix rest ''///'') \<and> HasPrefix rest ''//'' then
                   (case parseAuthority (fst (split (drop 2 rest) ''/'' False)) of
                      Inl e \<Rightarrow> Inl e
                    | Inr host \<Rightarrow>
                        setPath (u1\<lparr>Host := host\<rparr>) (snd (split (drop 2 rest) ''/'' False)))
                 else setPath u1 rest)))"

definition url_Parse :: "string \<Rightarrow> url_error + URL" where
  "url_Parse rawurl =
     (case url_parse (fst (split rawurl ''#'' True)) of
        Inl e \<Rightarrow> Inl e
      | Inr u \<Rightarrow>
          if snd (split rawurl ''#'' True) = [] then Inr u
          else
            (case unescape (snd (split rawurl ''#'' True)) encodeFragment of
               Inl e \<Rightarrow> Inl e
             | Inr frag \<Rightarrow> Inr (u\<lparr>Fragment := frag\<rparr>)))"

text \<open>\<open>Hostname\<close> is \<open>stripPort\<close> of the host.\<close>

definition stripPort :: "string \<Rightarrow> string" where
  "stripPort hostport =
     (case Index hostport '':'' of
        None \<Rightarrow> hostport
      | Some colon \<Rightarrow>
          (case Index hostport '']'' of
             Some i \<Rightarrow>
               (if HasPrefix (take i hostport) ''['' then drop 1 (take i hostport)
                else take i hostport)
           | None \<Rightarrow> take colon hostport))"

definition Hostname :: "URL \<Rightarrow> string" where
  "Hostname u = stripPort (Host u)"

section \<open>Targets\<close>

text \<open>
  \<open>targetParser\<close> is the regular expression
  \<^verbatim>\<open>^([^.]+)\.([^.]+)\.svc\.cluster\.local$\<close>. A match starts at the first byte, takes
  the longest run of bytes other than a dot for each group (a shorter run would be
  followed by a byte that is not a dot), and ends with the text. \<open>FindStringSubmatch\<close>
  returns the whole match and the two groups, or nil (the empty list).
\<close>

definition notDot :: "char \<Rightarrow> bool" where
  "notDot c = (c \<noteq> CHR ''.'')"

definition targetParser_FindStringSubmatch :: "string \<Rightarrow> string list" where
  "targetParser_FindStringSubmatch s =
     (let service = takeWhile notDot s; rest1 = dropWhile notDot s
      in if service = [] then []
         else
           (case rest1 of
              [] \<Rightarrow> []
            | dot # rest2 \<Rightarrow>
                (let app = takeWhile notDot rest2; rest3 = dropWhile notDot rest2
                 in if app = [] then []
                    else if rest3 = ''.svc.cluster.local'' then [s, service, app]
                    else [])))"

definition parseTarget :: "string \<Rightarrow> string \<times> string \<times> bool" where
  "parseTarget target =
     (case url_Parse target of
        Inl err \<Rightarrow> ([], [], False)
      | Inr u \<Rightarrow>
          (let m = targetParser_FindStringSubmatch (Hostname u)
           in if length m = 3 then (m ! 1, m ! 2, True) else ([], [], False)))"

section \<open>Route\<close>

lemma Route_of_list:
  assumes "TargetList r host w = (Inr ts, w')" and "ts \<noteq> []"
  shows "Route r v host w = (Returns (Inr (ts ! (v mod length ts))), w')"
proof -
  have n: "0 < length ts" using assms(2) by simp
  have m: "int v mod int (length ts) = int (v mod length ts)"
    by (simp add: zmod_int)
  have lt: "v mod length ts < length ts" using n by simp
  show ?thesis
    using assms(1) n lt
    by (simp add: Route_def rand_Intn_def index_def m)
qed

lemma Route_never_panics: "fst (Route r v host w) \<noteq> Panics p"
proof (cases "TargetList r host w")
  case (Pair res w')
  show ?thesis
  proof (cases res)
    case (Inl e)
    with Pair show ?thesis by (simp add: Route_def)
  next
    case (Inr ts)
    show ?thesis
    proof (cases "ts = []")
      case True
      with Pair Inr show ?thesis by (simp add: Route_def)
    next
      case False
      from Route_of_list [OF _ False, of r host w w' v] Pair Inr
      show ?thesis by simp
    qed
  qed
qed

lemma draws_one_period: "ts \<noteq> [] \<Longrightarrow>
    map (\<lambda>v. ts ! (v mod length ts)) [k * length ts..<Suc k * length ts] = ts"
proof -
  assume ne: "ts \<noteq> []"
  let ?n = "length ts"
  have "[k * ?n..<Suc k * ?n] = map (\<lambda>i. i + k * ?n) [0..<?n]"
    by (simp add: map_add_upt add.commute)
  then have "map (\<lambda>v. ts ! (v mod ?n)) [k * ?n..<Suc k * ?n]
      = map (\<lambda>i. ts ! ((i + k * ?n) mod ?n)) [0..<?n]"
    by (simp add: comp_def)
  also have "\<dots> = map (\<lambda>i. ts ! i) [0..<?n]"
    by (rule map_cong) auto
  also have "\<dots> = ts" by (rule map_nth)
  finally show ?thesis .
qed

lemma draws_periods: "ts \<noteq> [] \<Longrightarrow>
    mset (map (\<lambda>v. ts ! (v mod length ts)) [0..<k * length ts]) = repeat_mset k (mset ts)"
proof (induction k)
  case 0
  then show ?case by simp
next
  case (Suc k)
  let ?n = "length ts"
  have le: "k * ?n \<le> Suc k * ?n" by simp
  have "[0..<Suc k * ?n] = [0..<k * ?n] @ [k * ?n..<Suc k * ?n]"
    using upt_add_eq_append [of 0 "k * ?n" "?n"] by (simp add: add.commute)
  then have "mset (map (\<lambda>v. ts ! (v mod ?n)) [0..<Suc k * ?n])
      = mset (map (\<lambda>v. ts ! (v mod ?n)) [0..<k * ?n])
        + mset (map (\<lambda>v. ts ! (v mod ?n)) [k * ?n..<Suc k * ?n])"
    by simp
  also have "\<dots> = repeat_mset k (mset ts) + mset ts"
    using Suc.IH [OF Suc.prems] draws_one_period [OF Suc.prems, of k] by simp
  finally show ?case by (simp add: add.commute)
qed

text \<open>
  C1. When the target list of a host is empty (the host has no target, or the store
  does not know the host and answers with the empty list), \<open>Route\<close> returns the error
  \<open>no backends available\<close>, whatever the random draw is, and hands on the state the
  store returned. It is a total function that does not panic: the draw and the index
  are only reached with a non-empty list.
\<close>

theorem Route_no_backends:
  assumes "TargetList r host w = (Inr [], w')"
  shows "Route r v host w = (Returns (Inl ''no backends available''), w')
    \<and> (\<forall>p v' host' w''. fst (Route r v' host' w'') \<noteq> Panics p)"
proof -
  have "Route r v host w = (Returns (Inl ''no backends available''), w')"
    using assms by (simp add: Route_def)
  moreover have "\<forall>p v' host' w''. fst (Route r v' host' w'') \<noteq> Panics p"
    by (intro allI) (rule Route_never_panics)
  ultimately show ?thesis by blast
qed

theorem Route_no_backends_witness:
  "TargetList router0 ''unknown.example.com'' world0 = (Inr [], world0)
   \<and> Route router0 7 ''unknown.example.com'' world0
       = (Returns (Inl ''no backends available''), world0)"
proof -
  have h: "TargetList router0 ''unknown.example.com'' world0 = (Inr [], world0)"
    by (simp add: TargetList_def router0_def StorageMemory_def memory_TargetList_def world0_def)
  from Route_no_backends [OF h, of 7] h show ?thesis by simp
qed

text \<open>
  C2. When the target list of a host is not empty, \<open>Route\<close> succeeds and returns the
  entry of the list at the position \<open>v mod length ts\<close>, where \<open>v\<close> is the raw random
  draw: an element of the list. The choice is uniform over the entries of the list:
  over any \<open>k\<close> full periods of draws, every entry of the list is returned exactly \<open>k\<close>
  times (an entry that occurs twice in the list is counted twice).
\<close>

theorem Route_uniform_choice:
  assumes "TargetList r host w = (Inr ts, w')" and "ts \<noteq> []"
  shows "Route r v host w = (Returns (Inr (ts ! (v mod length ts))), w')
    \<and> ts ! (v mod length ts) \<in> set ts
    \<and> mset (map (\<lambda>v. fst (Route r v host w)) [0..<k * length ts])
        = repeat_mset k (image_mset (\<lambda>t. Returns (Inr t)) (mset ts))"
proof -
  have r: "\<And>v. Route r v host w = (Returns (Inr (ts ! (v mod length ts))), w')"
    using Route_of_list [OF assms] .
  have "map (\<lambda>v. fst (Route r v host w)) [0..<k * length ts]
      = map (\<lambda>t. Returns (Inr t)) (map (\<lambda>v. ts ! (v mod length ts)) [0..<k * length ts])"
    by (simp add: r comp_def)
  then have "mset (map (\<lambda>v. fst (Route r v host w)) [0..<k * length ts])
      = image_mset (\<lambda>t. Returns (Inr t))
          (mset (map (\<lambda>v. ts ! (v mod length ts)) [0..<k * length ts]))"
    by (simp only: mset_map)
  also have "\<dots> = image_mset (\<lambda>t. Returns (Inr t)) (repeat_mset k (mset ts))"
    by (simp only: draws_periods [OF assms(2)])
  also have "\<dots> = repeat_mset k (image_mset (\<lambda>t. Returns (Inr t)) (mset ts))"
    by (induction k) simp_all
  finally have u: "mset (map (\<lambda>v. fst (Route r v host w)) [0..<k * length ts])
      = repeat_mset k (image_mset (\<lambda>t. Returns (Inr t)) (mset ts))" .
  have "v mod length ts < length ts" using assms(2) by simp
  then have "ts ! (v mod length ts) \<in> set ts" by (rule nth_mem)
  with r u show ?thesis by simp
qed

theorem Route_uniform_choice_witness:
  "TargetList router0 ''app.example.com'' world1
     = (Inr [''http://10.0.0.1:3000'', ''http://10.0.0.2:3000''], world1)
   \<and> Route router0 5 ''app.example.com'' world1
       = (Returns (Inr ''http://10.0.0.2:3000''), world1)"
proof -
  have h: "TargetList router0 ''app.example.com'' world1
     = (Inr [''http://10.0.0.1:3000'', ''http://10.0.0.2:3000''], world1)"
    by (simp add: TargetList_def router0_def StorageMemory_def memory_TargetList_def
        world1_def world0_def)
  have m: "(5::nat) mod length [''http://10.0.0.1:3000'', ''http://10.0.0.2:3000''] = 1"
    by code_simp
  from Route_uniform_choice [OF h, of 5 0, unfolded m] h show ?thesis by simp
qed

text \<open>
  C7, as the code has it. When the read of the Routing Store fails, \<open>Route\<close> does not
  hand the storage error to its caller: it returns the fixed error
  \<open>no backends available\<close>, the same for every storage error, so the caller cannot tell
  a failing store from a host without targets.
\<close>

theorem Route_masks_storage_error:
  assumes "TargetList r host w = (Inl e, w')"
  shows "Route r v host w = (Returns (Inl ''no backends available''), w')"
  using assms by (simp add: Route_def)

theorem Route_masks_storage_error_witness:
  "TargetList router0 ''app.example.com'' (world1\<lparr>mem_fault := Some ''request timed out''\<rparr>)
     = (Inl ''request timed out'', world1\<lparr>mem_fault := Some ''request timed out''\<rparr>)
   \<and> Route router0 5 ''app.example.com'' (world1\<lparr>mem_fault := Some ''request timed out''\<rparr>)
     = (Returns (Inl ''no backends available''), world1\<lparr>mem_fault := Some ''request timed out''\<rparr>)"
proof -
  have h: "TargetList router0 ''app.example.com'' (world1\<lparr>mem_fault := Some ''request timed out''\<rparr>)
     = (Inl ''request timed out'', world1\<lparr>mem_fault := Some ''request timed out''\<rparr>)"
    by (simp add: TargetList_def router0_def StorageMemory_def memory_TargetList_def)
  from Route_masks_storage_error [OF h, of 5] h show ?thesis by simp
qed

text \<open>
  The claim as stated fails: the store fails with \<open>request timed out\<close>, and the error
  \<open>Route\<close> returns is another one.
\<close>

theorem Route_storage_error_counterexample:
  "fst (TargetList router0 ''app.example.com'' (world1\<lparr>mem_fault := Some ''request timed out''\<rparr>))
     = Inl ''request timed out''
   \<and> fst (Route router0 5 ''app.example.com'' (world1\<lparr>mem_fault := Some ''request timed out''\<rparr>))
     \<noteq> Returns (Inl ''request timed out'')"
  by (simp add: Route_def TargetList_def router0_def StorageMemory_def memory_TargetList_def)

section \<open>RequestBegin\<close>

lemma RequestBegin_idle_read_fails:
  assumes "storage_IdleGet (storage r) host w = (Inl e, w1)"
  shows "RequestBegin (r\<lparr>storage := (storage r)\<lparr>storage_RequestBegin := rb\<rparr>\<rparr>) host w
    = (Some (''could not fetch idle status: '' @ e), w1)"
  using assms by (simp add: RequestBegin_def)

lemma RequestBegin_unidle_fails:
  assumes "storage_IdleGet (storage r) host w = (Inr True, w1)"
    and "HostUnidle r host w1 = (Some e, w2)"
  shows "RequestBegin (r\<lparr>storage := (storage r)\<lparr>storage_RequestBegin := rb\<rparr>\<rparr>) host w
    = (Some (''could not unidle: '' @ e), w2)"
  using assms by (simp add: RequestBegin_def)

lemma RequestBegin_unidled:
  assumes "storage_IdleGet (storage r) host w = (Inr True, w1)"
    and "HostUnidle r host w1 = (None, w2)"
  shows "RequestBegin r host w = storage_RequestBegin (storage r) host w2"
  using assms by (simp add: RequestBegin_def)

lemma RequestBegin_not_idle:
  assumes "storage_IdleGet (storage r) host w = (Inr False, w1)"
  shows "RequestBegin r host w = storage_RequestBegin (storage r) host w1"
  using assms by (simp add: RequestBegin_def)

text \<open>
  C5. \<open>RequestBegin\<close> first reads the idle flag, in the state it is called in.
  \<^item> When the read fails with \<open>e\<close>, it returns the error
    \<open>could not fetch idle status: e\<close> and the state is the one the read left.
  \<^item> When the flag is true, it unidles the host in the state the read left; when that
    fails with \<open>e\<close>, it returns the error \<open>could not unidle: e\<close> and the state is the
    one the unidle left.
  \<^item> In both failing cases the storage's \<open>RequestBegin\<close> is not invoked: replacing it by
    any other function \<open>rb\<close> changes neither the result nor the state, so the in-flight
    counter is not incremented.
  \<^item> When the flag is true and the unidle succeeds, the storage's \<open>RequestBegin\<close> runs
    in the state the unidle left: the unidle comes before the increment. When the flag
    is false it runs in the state the read left.
\<close>

theorem RequestBegin_unidles_before_counting:
  "(\<forall>e w1 rb. storage_IdleGet (storage r) host w = (Inl e, w1) \<longrightarrow>
      RequestBegin (r\<lparr>storage := (storage r)\<lparr>storage_RequestBegin := rb\<rparr>\<rparr>) host w
        = (Some (''could not fetch idle status: '' @ e), w1))
   \<and> (\<forall>e w1 w2 rb. storage_IdleGet (storage r) host w = (Inr True, w1)
        \<and> HostUnidle r host w1 = (Some e, w2) \<longrightarrow>
      RequestBegin (r\<lparr>storage := (storage r)\<lparr>storage_RequestBegin := rb\<rparr>\<rparr>) host w
        = (Some (''could not unidle: '' @ e), w2))
   \<and> (\<forall>w1 w2. storage_IdleGet (storage r) host w = (Inr True, w1)
        \<and> HostUnidle r host w1 = (None, w2) \<longrightarrow>
      RequestBegin r host w = storage_RequestBegin (storage r) host w2)
   \<and> (\<forall>w1. storage_IdleGet (storage r) host w = (Inr False, w1) \<longrightarrow>
      RequestBegin r host w = storage_RequestBegin (storage r) host w1)"
  using RequestBegin_idle_read_fails [of r host w] RequestBegin_unidle_fails [of r host w]
    RequestBegin_unidled [of r host w] RequestBegin_not_idle [of r host w]
  by blast

lemmas fixture_defs =
  router0_def StorageMemory_def memory_IdleGet_def memory_IdleSet_def
  memory_RequestBegin_def memory_TargetAdd_def memory_TargetList_def
  cluster_HostIdleStatus_def cluster_HostUnidle_def world0_def world1_def world2_def
  world3_def

theorem RequestBegin_unidles_before_counting_witness:
  "RequestBegin router0 ''app.example.com'' (world2\<lparr>mem_fault := Some ''request timed out''\<rparr>)
     = (Some ''could not fetch idle status: request timed out'',
        world2\<lparr>mem_fault := Some ''request timed out''\<rparr>)
   \<and> RequestBegin router0 ''app.example.com'' (world2\<lparr>cluster_fault := Some ''scale failed''\<rparr>)
     = (Some ''could not unidle: scale failed'', world2\<lparr>cluster_fault := Some ''scale failed''\<rparr>)
   \<and> mem_count (world2\<lparr>cluster_fault := Some ''scale failed''\<rparr>) ''app.example.com'' = 3
   \<and> fst (RequestBegin router0 ''app.example.com'' world2) = None
   \<and> mem_count (snd (RequestBegin router0 ''app.example.com'' world2)) ''app.example.com'' = 4
   \<and> mem_idle (snd (RequestBegin router0 ''app.example.com'' world2)) ''app.example.com'' = False
   \<and> fst (RequestBegin router0 ''app.example.com'' world1) = None
   \<and> mem_count (snd (RequestBegin router0 ''app.example.com'' world1)) ''app.example.com'' = 1"
proof -
  let ?h = "''app.example.com''"
  let ?rb = "storage_RequestBegin (storage router0)"
  let ?wa = "world2\<lparr>mem_fault := Some ''request timed out''\<rparr>"
  let ?wb = "world2\<lparr>cluster_fault := Some ''scale failed''\<rparr>"
  let ?wc = "world2\<lparr>mem_idle := (mem_idle world2)(?h := False),
                    cluster_replicas := (cluster_replicas world2)(?h := 1)\<rparr>"
  have same: "router0\<lparr>storage := (storage router0)\<lparr>storage_RequestBegin := ?rb\<rparr>\<rparr> = router0"
    by simp
  have ga: "storage_IdleGet (storage router0) ?h ?wa = (Inl ''request timed out'', ?wa)"
    by (simp add: fixture_defs)
  have gb: "storage_IdleGet (storage router0) ?h ?wb = (Inr True, ?wb)"
    by (simp add: fixture_defs)
  have ub: "HostUnidle router0 ?h ?wb = (Some ''scale failed'', ?wb)"
    by (simp add: fixture_defs)
  have gc: "storage_IdleGet (storage router0) ?h world2 = (Inr True, world2)"
    by (simp add: fixture_defs)
  have uc: "HostUnidle router0 ?h world2 = (None, ?wc)"
    by (simp add: fixture_defs)
  have gd: "storage_IdleGet (storage router0) ?h world1 = (Inr False, world1)"
    by (simp add: fixture_defs)
  note t = RequestBegin_unidles_before_counting [where r = router0 and host = ?h]
  have a: "RequestBegin router0 ?h ?wa
      = (Some (''could not fetch idle status: '' @ ''request timed out''), ?wa)"
    using t [of ?wa, THEN conjunct1, rule_format, OF ga, of ?rb] by (simp only: same)
  have b: "RequestBegin router0 ?h ?wb = (Some (''could not unidle: '' @ ''scale failed''), ?wb)"
    using t [of ?wb, THEN conjunct2, THEN conjunct1, rule_format, OF conjI [OF gb ub], of ?rb]
    by (simp only: same)
  have c: "RequestBegin router0 ?h world2 = storage_RequestBegin (storage router0) ?h ?wc"
    using t [of world2, THEN conjunct2, THEN conjunct2, THEN conjunct1, rule_format,
        OF conjI [OF gc uc]] .
  have d: "RequestBegin router0 ?h world1 = storage_RequestBegin (storage router0) ?h world1"
    using t [of world1, THEN conjunct2, THEN conjunct2, THEN conjunct2, rule_format, OF gd] .
  have c': "fst (storage_RequestBegin (storage router0) ?h ?wc) = None
      \<and> mem_count (snd (storage_RequestBegin (storage router0) ?h ?wc)) ?h = 4
      \<and> mem_idle (snd (storage_RequestBegin (storage router0) ?h ?wc)) ?h = False"
    by (simp add: fixture_defs)
  have d': "fst (storage_RequestBegin (storage router0) ?h world1) = None
      \<and> mem_count (snd (storage_RequestBegin (storage router0) ?h world1)) ?h = 1"
    by (simp add: fixture_defs)
  have e: "mem_count ?wb ?h = 3" by (simp add: fixture_defs)
  from a b e c' d' show ?thesis unfolding c d by simp
qed

section \<open>TargetAdd\<close>

lemma TargetAdd_success:
  assumes "TargetAdd r host target w = (None, w')"
  shows "\<exists>w1 w2 idle.
      storage_TargetAdd (storage r) host target w = (None, w1)
      \<and> HostIdleStatus r host w1 = (Inr idle, w2)
      \<and> storage_IdleSet (storage r) host idle w2 = (None, w')"
proof -
  obtain a w1 where a: "storage_TargetAdd (storage r) host target w = (a, w1)"
    by (cases "storage_TargetAdd (storage r) host target w")
  obtain b w2 where b: "HostIdleStatus r host w1 = (b, w2)"
    by (cases "HostIdleStatus r host w1")
  from assms a have a': "a = None"
    by (cases a) (simp_all add: TargetAdd_def)
  from assms a a' b obtain idle where b': "b = Inr idle"
    by (cases b) (simp_all add: TargetAdd_def)
  obtain c w3 where c: "storage_IdleSet (storage r) host idle w2 = (c, w3)"
    by (cases "storage_IdleSet (storage r) host idle w2")
  from assms a a' b b' c have "c = None \<and> w3 = w'"
    by (cases c) (simp_all add: TargetAdd_def)
  with a a' b b' c show ?thesis by blast
qed

text \<open>
  C6. A successful \<open>TargetAdd\<close> has added the target, then recomputed the idle status
  of the host (\<open>HostIdleStatus\<close>, in the state the add left), then written that value
  to the idle flag of the host with a successful \<open>IdleSet\<close>, which is its last step:
  the state it returns is the one \<open>IdleSet\<close> left. Where the store reads back what a
  successful \<open>IdleSet\<close> wrote, \<open>IdleGet\<close> of the host in the final state is the
  recomputed status. In particular, when the flag was true and the recomputed status is
  false (the backend is no longer scaled to zero), the add has cleared the flag.
\<close>

theorem TargetAdd_synchronizes_idle:
  assumes "TargetAdd r host target w = (None, w')"
  shows "\<exists>w1 w2 idle.
      storage_TargetAdd (storage r) host target w = (None, w1)
      \<and> HostIdleStatus r host w1 = (Inr idle, w2)
      \<and> storage_IdleSet (storage r) host idle w2 = (None, w')
      \<and> ((\<forall>b u u'. storage_IdleSet (storage r) host b u = (None, u') \<longrightarrow>
             fst (storage_IdleGet (storage r) host u') = Inr b)
           \<longrightarrow> fst (storage_IdleGet (storage r) host w') = Inr idle)"
proof -
  from TargetAdd_success [OF assms] obtain w1 w2 idle where
    s: "storage_TargetAdd (storage r) host target w = (None, w1)"
      "HostIdleStatus r host w1 = (Inr idle, w2)"
      "storage_IdleSet (storage r) host idle w2 = (None, w')"
    by blast
  then show ?thesis by blast
qed

theorem TargetAdd_synchronizes_idle_witness:
  "fst (storage_IdleGet (storage router0) ''app.example.com'' world3) = Inr True
   \<and> fst (TargetAdd router0 ''app.example.com'' ''http://10.0.0.3:3000'' world3) = None
   \<and> fst (storage_IdleGet (storage router0) ''app.example.com''
        (snd (TargetAdd router0 ''app.example.com'' ''http://10.0.0.3:3000'' world3))) = Inr False
   \<and> fst (HostIdleStatus router0 ''app.example.com''
        (snd (TargetAdd router0 ''app.example.com'' ''http://10.0.0.3:3000'' world3))) = Inr False"
proof -
  let ?h = "''app.example.com''"
  let ?t = "''http://10.0.0.3:3000''"
  obtain w' where w': "w' = snd (TargetAdd router0 ?h ?t world3)" by simp
  have ok: "TargetAdd router0 ?h ?t world3 = (None, w')"
    unfolding w' by (simp add: TargetAdd_def fixture_defs)
  have law: "\<forall>b u u'. storage_IdleSet (storage router0) ?h b u = (None, u') \<longrightarrow>
      fst (storage_IdleGet (storage router0) ?h u') = Inr b"
    by (auto simp: router0_def StorageMemory_def memory_IdleGet_def memory_IdleSet_def
        split: option.splits)
  from TargetAdd_synchronizes_idle [OF ok] obtain w1 w2 idle where
    s: "storage_TargetAdd (storage router0) ?h ?t world3 = (None, w1)"
      "HostIdleStatus router0 ?h w1 = (Inr idle, w2)"
      "fst (storage_IdleGet (storage router0) ?h w') = Inr idle"
    using law by blast
  have "idle = False"
    using s(1,2) by (auto simp: fixture_defs)
  with s(3) have g: "fst (storage_IdleGet (storage router0) ?h w') = Inr False" by simp
  have i: "fst (storage_IdleGet (storage router0) ?h world3) = Inr True"
    by (simp add: fixture_defs)
  have j: "fst (HostIdleStatus router0 ?h w') = Inr False"
    unfolding w' by (simp add: TargetAdd_def fixture_defs)
  have k: "fst (TargetAdd router0 ?h ?t world3) = None"
    using ok by (metis fst_conv)
  from k g i j show ?thesis unfolding w' by blast
qed

section \<open>Certificates in CA mode\<close>

lemma generateCertificateCA_hit:
  assumes "certs (ServerName hello) = Some (CertificateValue c)"
  shows "generateCertificateCA ca CertificateCA hello certs w = (Inr c, certs, w)"
  using assms by (simp add: generateCertificateCA_def)

lemma generateCertificateCA_miss:
  assumes "\<forall>c. certs (ServerName hello) \<noteq> Some (CertificateValue c)"
    and "ca w = (Inr k, w1)"
    and "CertificateCA (ServerName hello) k w1 = (Inr c, w2)"
  shows "generateCertificateCA ca CertificateCA hello certs w
    = (Inr c, certs(ServerName hello \<mapsto> CertificateValue c), w2)"
  using assms
  by (auto simp: generateCertificateCA_def Let_def split: option.splits cache_value.splits)

lemma generateCertificateCA_fails:
  assumes "\<forall>c. certs (ServerName hello) \<noteq> Some (CertificateValue c)"
    and "ca w = (Inl e, w1) \<or>
      (\<exists>k w0. ca w = (Inr k, w0) \<and> CertificateCA (ServerName hello) k w0 = (Inl e, w1))"
  shows "generateCertificateCA ca CertificateCA hello certs w = (Inl e, certs, w1)"
  using assms
  by (auto simp: generateCertificateCA_def Let_def split: option.splits cache_value.splits)

lemma generateCertificateCA_keeps:
  assumes "certs h = Some (CertificateValue c)"
  shows "fst (snd (generateCertificateCA ca CertificateCA hello certs w)) h
    = Some (CertificateValue c)"
  using assms
  by (auto simp: generateCertificateCA_def Let_def
      split: option.splits cache_value.splits prod.splits sum.splits)

text \<open>
  C4. In CA mode, when the cache has no entry for the host \<open>h\<close>, the CA can be loaded
  and signing succeeds, the call with server name \<open>h\<close> returns the certificate that
  \<open>helpers.CertificateCA\<close> made for exactly \<open>h\<close> and stores it in the cache under \<open>h\<close>.
  From any later cache that holds this entry, a call with server name \<open>h\<close> returns the
  stored certificate and changes neither the cache nor the state, whatever the CA and
  the signing function would do: nothing is signed again. No call of the callback, for
  any server name, removes or replaces the entry: the cache is not invalidated. (When
  the CA cannot be loaded or signing fails, the callback returns that error and stores
  nothing, see \<open>generateCertificateCA_fails\<close>: the next call signs again.)
\<close>

theorem generateCertificateCA_signs_once:
  fixes ca :: "'w \<Rightarrow> (error + 'c) \<times> 'w"
    and CertificateCA :: "string \<Rightarrow> 'c \<Rightarrow> 'w \<Rightarrow> (error + 'c) \<times> 'w"
  assumes "certs h = None"
    and "ca w = (Inr k, w1)"
    and "CertificateCA h k w1 = (Inr c, w2)"
  shows "generateCertificateCA ca CertificateCA \<lparr>ServerName = h\<rparr> certs w
      = (Inr c, certs(h \<mapsto> CertificateValue c), w2)
    \<and> (\<forall>(ca' :: 'w \<Rightarrow> (error + 'c) \<times> 'w) sign' certs' w'.
          certs' h = Some (CertificateValue c) \<longrightarrow>
          generateCertificateCA ca' sign' \<lparr>ServerName = h\<rparr> certs' w' = (Inr c, certs', w'))
    \<and> (\<forall>(ca' :: 'w \<Rightarrow> (error + 'c) \<times> 'w) sign' hello' certs' w'.
          certs' h = Some (CertificateValue c) \<longrightarrow>
          fst (snd (generateCertificateCA ca' sign' hello' certs' w')) h
            = Some (CertificateValue c))"
proof (intro conjI allI impI)
  have miss: "\<forall>c'. certs (ServerName \<lparr>ServerName = h\<rparr>) \<noteq> Some (CertificateValue c')"
    using assms(1) by simp
  have sign: "CertificateCA (ServerName \<lparr>ServerName = h\<rparr>) k w1 = (Inr c, w2)"
    using assms(3) by simp
  have "generateCertificateCA ca CertificateCA \<lparr>ServerName = h\<rparr> certs w
      = (Inr c, certs(ServerName \<lparr>ServerName = h\<rparr> \<mapsto> CertificateValue c), w2)"
    using miss assms(2) sign by (rule generateCertificateCA_miss)
  then show "generateCertificateCA ca CertificateCA \<lparr>ServerName = h\<rparr> certs w
      = (Inr c, certs(h \<mapsto> CertificateValue c), w2)"
    by simp
next
  fix ca' :: "'w \<Rightarrow> (error + 'c) \<times> 'w" and sign' :: "string \<Rightarrow> 'c \<Rightarrow> 'w \<Rightarrow> (error + 'c) \<times> 'w"
    and certs' :: "string \<rightharpoonup> 'c cache_value" and w' :: 'w
  assume "certs' h = Some (CertificateValue c)"
  then have "certs' (ServerName \<lparr>ServerName = h\<rparr>) = Some (CertificateValue c)" by simp
  then show "generateCertificateCA ca' sign' \<lparr>ServerName = h\<rparr> certs' w' = (Inr c, certs', w')"
    by (rule generateCertificateCA_hit)
next
  fix ca' :: "'w \<Rightarrow> (error + 'c) \<times> 'w" and sign' :: "string \<Rightarrow> 'c \<Rightarrow> 'w \<Rightarrow> (error + 'c) \<times> 'w"
    and hello' :: ClientHelloInfo and certs' :: "string \<rightharpoonup> 'c cache_value" and w' :: 'w
  assume "certs' h = Some (CertificateValue c)"
  then show "fst (snd (generateCertificateCA ca' sign' hello' certs' w')) h
      = Some (CertificateValue c)"
    by (rule generateCertificateCA_keeps)
qed

theorem generateCertificateCA_signs_once_witness:
  "generateCertificateCA router_ca helpers_CertificateCA \<lparr>ServerName = ''foo.example.com''\<rparr>
      Map.empty 0
     = (Inr (CASigned ''foo.example.com'' (SelfSigned ''ca'') 0),
        [''foo.example.com'' \<mapsto> CertificateValue (CASigned ''foo.example.com'' (SelfSigned ''ca'') 0)],
        1)
   \<and> generateCertificateCA router_ca helpers_CertificateCA \<lparr>ServerName = ''foo.example.com''\<rparr>
      [''foo.example.com'' \<mapsto> CertificateValue (CASigned ''foo.example.com'' (SelfSigned ''ca'') 0)] 1
     = (Inr (CASigned ''foo.example.com'' (SelfSigned ''ca'') 0),
        [''foo.example.com'' \<mapsto> CertificateValue (CASigned ''foo.example.com'' (SelfSigned ''ca'') 0)],
        1)"
proof -
  let ?h = "''foo.example.com''"
  let ?c = "CASigned ?h (SelfSigned ''ca'') 0"
  let ?certs = "[?h \<mapsto> CertificateValue ?c]"
  have a: "(Map.empty :: string \<rightharpoonup> certificate cache_value) ?h = None" by simp
  have b: "router_ca 0 = (Inr (SelfSigned ''ca''), 0)" by (simp add: router_ca_def)
  have c: "helpers_CertificateCA ?h (SelfSigned ''ca'') 0 = (Inr ?c, 1)"
    by (simp add: helpers_CertificateCA_def)
  note t = generateCertificateCA_signs_once [of Map.empty ?h router_ca 0 "SelfSigned ''ca''" 0
      helpers_CertificateCA ?c 1, OF a b c]
  have d: "?certs ?h = Some (CertificateValue ?c)" by simp
  have first: "generateCertificateCA router_ca helpers_CertificateCA \<lparr>ServerName = ?h\<rparr>
      Map.empty 0 = (Inr ?c, ?certs, 1)"
    using t [THEN conjunct1] .
  have second: "generateCertificateCA router_ca helpers_CertificateCA \<lparr>ServerName = ?h\<rparr>
      ?certs 1 = (Inr ?c, ?certs, 1)"
    using t [THEN conjunct2, THEN conjunct1, rule_format,
        of ?certs router_ca helpers_CertificateCA 1, OF d] .
  from first second show ?thesis by (rule conjI)
qed

text \<open>
  C3, as the code has it. In CA mode the callback has no case for an empty server
  name: the empty name is a cache key like any other. With the empty name cached, the
  cached certificate is returned; otherwise, when the CA can be loaded and signing
  succeeds, the certificate that \<open>helpers.CertificateCA\<close> made for the empty host name is
  stored under the empty name and returned. No self-signed certificate is involved.
\<close>

theorem generateCertificateCA_empty_name:
  fixes ca :: "'w \<Rightarrow> (error + 'c) \<times> 'w"
    and CertificateCA :: "string \<Rightarrow> 'c \<Rightarrow> 'w \<Rightarrow> (error + 'c) \<times> 'w"
  shows "(\<forall>c. certs [] = Some (CertificateValue c) \<longrightarrow>
      generateCertificateCA ca CertificateCA \<lparr>ServerName = []\<rparr> certs w = (Inr c, certs, w))
   \<and> (\<forall>k w1 c w2. (\<forall>c'. certs [] \<noteq> Some (CertificateValue c')) \<and> ca w = (Inr k, w1)
        \<and> CertificateCA [] k w1 = (Inr c, w2) \<longrightarrow>
      generateCertificateCA ca CertificateCA \<lparr>ServerName = []\<rparr> certs w
        = (Inr c, certs([] \<mapsto> CertificateValue c), w2))"
proof (intro conjI allI impI)
  fix c
  assume "certs [] = Some (CertificateValue c)"
  then have "certs (ServerName \<lparr>ServerName = []\<rparr>) = Some (CertificateValue c)" by simp
  then show "generateCertificateCA ca CertificateCA \<lparr>ServerName = []\<rparr> certs w
      = (Inr c, certs, w)"
    by (rule generateCertificateCA_hit)
next
  fix k w1 c w2
  assume h: "(\<forall>c'. certs [] \<noteq> Some (CertificateValue c')) \<and> ca w = (Inr k, w1)
      \<and> CertificateCA [] k w1 = (Inr c, w2)"
  have miss: "\<forall>c'. certs (ServerName \<lparr>ServerName = []\<rparr>) \<noteq> Some (CertificateValue c')"
    using h by simp
  have cak: "ca w = (Inr k, w1)" using h by simp
  have sign: "CertificateCA (ServerName \<lparr>ServerName = []\<rparr>) k w1 = (Inr c, w2)"
    using h by simp
  have "generateCertificateCA ca CertificateCA \<lparr>ServerName = []\<rparr> certs w
      = (Inr c, certs(ServerName \<lparr>ServerName = []\<rparr> \<mapsto> CertificateValue c), w2)"
    using miss cak sign by (rule generateCertificateCA_miss)
  then show "generateCertificateCA ca CertificateCA \<lparr>ServerName = []\<rparr> certs w
      = (Inr c, certs([] \<mapsto> CertificateValue c), w2)"
    by simp
qed

theorem generateCertificateCA_empty_name_witness:
  "generateCertificateCA router_ca helpers_CertificateCA \<lparr>ServerName = []\<rparr> Map.empty 0
     = (Inr (CASigned [] (SelfSigned ''ca'') 0),
        [[] \<mapsto> CertificateValue (CASigned [] (SelfSigned ''ca'') 0)], 1)
   \<and> generateCertificateCA router_ca helpers_CertificateCA \<lparr>ServerName = []\<rparr>
        [[] \<mapsto> CertificateValue (CASigned [] (SelfSigned ''ca'') 0)] 1
     = (Inr (CASigned [] (SelfSigned ''ca'') 0),
        [[] \<mapsto> CertificateValue (CASigned [] (SelfSigned ''ca'') 0)], 1)"
proof -
  let ?c = "CASigned [] (SelfSigned ''ca'') 0"
  let ?certs = "[[] \<mapsto> CertificateValue ?c]"
  have a: "\<forall>c'. (Map.empty :: string \<rightharpoonup> certificate cache_value) [] \<noteq> Some (CertificateValue c')"
    by simp
  have b: "router_ca 0 = (Inr (SelfSigned ''ca''), 0)" by (simp add: router_ca_def)
  have c: "helpers_CertificateCA [] (SelfSigned ''ca'') 0 = (Inr ?c, 1)"
    by (simp add: helpers_CertificateCA_def)
  have d: "?certs [] = Some (CertificateValue ?c)" by simp
  have first: "generateCertificateCA router_ca helpers_CertificateCA \<lparr>ServerName = []\<rparr>
      Map.empty 0 = (Inr ?c, ?certs, 1)"
    using generateCertificateCA_empty_name [of Map.empty router_ca helpers_CertificateCA 0,
        THEN conjunct2, rule_format, of "SelfSigned ''ca''" 0 ?c 1, OF conjI [OF a conjI [OF b c]]] .
  have second: "generateCertificateCA router_ca helpers_CertificateCA \<lparr>ServerName = []\<rparr>
      ?certs 1 = (Inr ?c, ?certs, 1)"
    using generateCertificateCA_empty_name [of ?certs router_ca helpers_CertificateCA 1,
        THEN conjunct1, rule_format, of ?c, OF d] .
  from first second show ?thesis by (rule conjI)
qed

text \<open>
  The claim as stated fails: with an empty server name and an empty cache the callback
  returns a certificate signed by the CA for the empty host name, not the self-signed
  certificate that \<open>helpers.CertificateSelfSigned\<close> makes.
\<close>

theorem generateCertificateCA_fallback_counterexample:
  "fst (generateCertificateCA router_ca helpers_CertificateCA \<lparr>ServerName = []\<rparr> Map.empty 0)
     = Inr (CASigned [] (SelfSigned ''ca'') 0)
   \<and> fst (generateCertificateCA router_ca helpers_CertificateCA \<lparr>ServerName = []\<rparr> Map.empty 0)
     \<noteq> fst (helpers_CertificateSelfSigned ''convox'' 0)"
  by (simp add: generateCertificateCA_def router_ca_def helpers_CertificateCA_def
      helpers_CertificateSelfSigned_def)

section \<open>Certificates in automated-issuance mode\<close>

text \<open>
  C8, as the code has it. In automated-issuance mode the router handles an empty
  server name itself: the callback returns what \<open>helpers.CertificateSelfSigned\<close> makes
  for the name \<open>convox\<close> and does not consult the ACME manager (the result is the same
  for every manager). Only a handshake with a server name is delegated to the manager's
  \<open>GetCertificate\<close>.
\<close>

theorem generateCertificateAutocert_empty_name:
  "(ServerName hello = [] \<longrightarrow>
      (\<forall>m. generateCertificateAutocert CertificateSelfSigned m hello w
        = CertificateSelfSigned ''convox'' w))
   \<and> (ServerName hello \<noteq> [] \<longrightarrow>
      generateCertificateAutocert CertificateSelfSigned GetCertificate hello w
        = GetCertificate hello w)"
  by (simp add: generateCertificateAutocert_def)

theorem generateCertificateAutocert_empty_name_witness:
  "generateCertificateAutocert helpers_CertificateSelfSigned manager_GetCertificate
      \<lparr>ServerName = []\<rparr> 0 = (Inr (SelfSigned ''convox''), 0)
   \<and> generateCertificateAutocert helpers_CertificateSelfSigned manager_GetCertificate
      \<lparr>ServerName = ''foo.example.com''\<rparr> 0 = (Inr (Issued ''foo.example.com''), 0)"
proof -
  have a: "ServerName \<lparr>ServerName = []\<rparr> = []" by simp
  have b: "ServerName \<lparr>ServerName = ''foo.example.com''\<rparr> \<noteq> []" by simp
  have first: "generateCertificateAutocert helpers_CertificateSelfSigned manager_GetCertificate
      \<lparr>ServerName = []\<rparr> 0 = helpers_CertificateSelfSigned ''convox'' 0"
    using generateCertificateAutocert_empty_name [of "\<lparr>ServerName = []\<rparr>"
        helpers_CertificateSelfSigned 0 manager_GetCertificate,
        THEN conjunct1, rule_format, OF a, of manager_GetCertificate] .
  have second: "generateCertificateAutocert helpers_CertificateSelfSigned manager_GetCertificate
      \<lparr>ServerName = ''foo.example.com''\<rparr> 0
        = manager_GetCertificate \<lparr>ServerName = ''foo.example.com''\<rparr> 0"
    using generateCertificateAutocert_empty_name [of "\<lparr>ServerName = ''foo.example.com''\<rparr>"
        helpers_CertificateSelfSigned 0 manager_GetCertificate,
        THEN conjunct2, rule_format, OF b] .
  have c: "helpers_CertificateSelfSigned ''convox'' 0 = (Inr (SelfSigned ''convox''), 0)"
    by (simp add: helpers_CertificateSelfSigned_def)
  have d: "manager_GetCertificate \<lparr>ServerName = ''foo.example.com''\<rparr> 0
      = (Inr (Issued ''foo.example.com''), 0)"
    by (simp add: manager_GetCertificate_def)
  from first second show ?thesis unfolding c d by (rule conjI)
qed

text \<open>
  The claim as stated fails: without a server name the callback returns the router's
  self-signed certificate, which is not what the manager's \<open>GetCertificate\<close> answers.
\<close>

theorem generateCertificateAutocert_delegation_counterexample:
  "generateCertificateAutocert helpers_CertificateSelfSigned manager_GetCertificate
      \<lparr>ServerName = []\<rparr> 0 = (Inr (SelfSigned ''convox''), 0)
   \<and> generateCertificateAutocert helpers_CertificateSelfSigned manager_GetCertificate
      \<lparr>ServerName = []\<rparr> 0 \<noteq> manager_GetCertificate \<lparr>ServerName = []\<rparr> 0"
  by (simp add: generateCertificateAutocert_def helpers_CertificateSelfSigned_def
      manager_GetCertificate_def)

section \<open>The redirect to HTTPS: properties\<close>




lemma hexEscapeNonASCII_append:
  "hexEscapeNonASCII (s @ t) = hexEscapeNonASCII s @ hexEscapeNonASCII t"
  by (simp add: hexEscapeNonASCII_def)

















lemma setPath_escaped_slash:
  "setPath URL_zero ''/a%2Fb'' = Inr (URL_zero\<lparr>Path := ''/a/b'', RawPath := ''/a%2Fb''\<rparr>)"
  by code_simp


section \<open>Targets: properties\<close>

lemma takeWhile_notDot_dot:
  assumes "CHR ''.'' \<notin> set s"
  shows "takeWhile notDot (s @ CHR ''.'' # t) = s"
    and "dropWhile notDot (s @ CHR ''.'' # t) = CHR ''.'' # t"
proof -
  have all: "\<forall>c\<in>set s. notDot c" using assms by (auto simp: notDot_def)
  have dot: "\<not> notDot CHR ''.''" by (simp add: notDot_def)
  show "takeWhile notDot (s @ CHR ''.'' # t) = s"
    using all dot by (simp add: takeWhile_append2)
  show "dropWhile notDot (s @ CHR ''.'' # t) = CHR ''.'' # t"
    using all dot by (simp add: dropWhile_append2)
qed

lemma FindStringSubmatch_match:
  assumes "service \<noteq> []" and "app \<noteq> []"
    and "CHR ''.'' \<notin> set service" and "CHR ''.'' \<notin> set app"
  shows "targetParser_FindStringSubmatch (service @ ''.'' @ app @ ''.svc.cluster.local'')
    = [service @ ''.'' @ app @ ''.svc.cluster.local'', service, app]"
proof -
  let ?tail = "''svc.cluster.local''"
  have s: "service @ ''.'' @ app @ ''.svc.cluster.local''
      = service @ CHR ''.'' # (app @ CHR ''.'' # ?tail)"
    by simp
  have t1: "takeWhile notDot (service @ CHR ''.'' # (app @ CHR ''.'' # ?tail)) = service"
    and d1: "dropWhile notDot (service @ CHR ''.'' # (app @ CHR ''.'' # ?tail))
      = CHR ''.'' # (app @ CHR ''.'' # ?tail)"
    using takeWhile_notDot_dot [OF assms(3)] by blast+
  have t2: "takeWhile notDot (app @ CHR ''.'' # ?tail) = app"
    and d2: "dropWhile notDot (app @ CHR ''.'' # ?tail) = CHR ''.'' # ?tail"
    using takeWhile_notDot_dot [OF assms(4)] by blast+
  show ?thesis
    unfolding s targetParser_FindStringSubmatch_def Let_def t1 d1
    using assms(1,2) by (simp add: t2 d2)
qed

lemma FindStringSubmatch_sound:
  assumes "targetParser_FindStringSubmatch s \<noteq> []"
  shows "\<exists>service app. service \<noteq> [] \<and> app \<noteq> []
      \<and> CHR ''.'' \<notin> set service \<and> CHR ''.'' \<notin> set app
      \<and> s = service @ ''.'' @ app @ ''.svc.cluster.local''
      \<and> targetParser_FindStringSubmatch s = [s, service, app]"
proof -
  let ?service = "takeWhile notDot s" and ?rest1 = "dropWhile notDot s"
  from assms have s1: "?service \<noteq> []"
    by (auto simp: targetParser_FindStringSubmatch_def Let_def)
  from assms s1 obtain dot rest2 where r1: "?rest1 = dot # rest2"
    by (cases ?rest1) (auto simp: targetParser_FindStringSubmatch_def Let_def)
  let ?app = "takeWhile notDot rest2" and ?rest3 = "dropWhile notDot rest2"
  from assms s1 r1 have a1: "?app \<noteq> []"
    by (auto simp: targetParser_FindStringSubmatch_def Let_def split: if_splits)
  from assms s1 r1 a1 have r3: "?rest3 = ''.svc.cluster.local''"
    by (auto simp: targetParser_FindStringSubmatch_def Let_def split: if_splits)
  from assms s1 r1 a1 r3 have res: "targetParser_FindStringSubmatch s = [s, ?service, ?app]"
    by (simp add: targetParser_FindStringSubmatch_def Let_def)
  have "\<not> notDot dot"
    using r1 hd_dropWhile [of notDot s] by simp
  then have dot: "dot = CHR ''.''" by (simp add: notDot_def)
  have "s = ?service @ ?rest1" by simp
  also have "\<dots> = ?service @ dot # (?app @ ?rest3)" using r1 by simp
  finally have eq: "s = ?service @ ''.'' @ ?app @ ''.svc.cluster.local''"
    using dot r3 by simp
  have n1: "CHR ''.'' \<notin> set ?service"
    using set_takeWhileD [of "CHR ''.''" notDot s] by (auto simp: notDot_def)
  have n2: "CHR ''.'' \<notin> set ?app"
    using set_takeWhileD [of "CHR ''.''" notDot rest2] by (auto simp: notDot_def)
  from s1 a1 n1 n2 eq res show ?thesis by blast
qed

lemma parseTarget_Inr:
  assumes "url_Parse target = Inr u"
  shows "parseTarget target =
    (if targetParser_FindStringSubmatch (Hostname u) = [] then ([], [], False)
     else (targetParser_FindStringSubmatch (Hostname u) ! 1,
           targetParser_FindStringSubmatch (Hostname u) ! 2, True))"
proof (cases "targetParser_FindStringSubmatch (Hostname u) = []")
  case True
  with assms show ?thesis by (simp add: parseTarget_def)
next
  case False
  from FindStringSubmatch_sound [OF False] obtain service app where
    "targetParser_FindStringSubmatch (Hostname u) = [Hostname u, service, app]" by blast
  with assms False show ?thesis by (simp add: parseTarget_def)
qed

lemma parseTarget_Inl:
  assumes "url_Parse target = Inl e"
  shows "parseTarget target = ([], [], False)"
  using assms by (simp add: parseTarget_def)

text \<open>
  C10, as the code has it. \<open>parseTarget\<close> reads the target as a URL and matches the
  host name of that URL, without the port. When \<open>url.Parse\<close> accepts the target and
  the host name of the URL is \<open>service.app.svc.cluster.local\<close>, with service and app not
  empty and free of dots, the result is (service, app, true). For every other target,
  one that \<open>url.Parse\<close> rejects or whose host name has another form, the result is
  ("", "", false).
\<close>

theorem parseTarget_hostname:
  "(\<forall>u service app.
      url_Parse target = Inr u
      \<and> Hostname u = service @ ''.'' @ app @ ''.svc.cluster.local''
      \<and> service \<noteq> [] \<and> app \<noteq> [] \<and> CHR ''.'' \<notin> set service \<and> CHR ''.'' \<notin> set app
      \<longrightarrow> parseTarget target = (service, app, True))
   \<and> (\<not> (\<exists>u service app.
           url_Parse target = Inr u
           \<and> Hostname u = service @ ''.'' @ app @ ''.svc.cluster.local''
           \<and> service \<noteq> [] \<and> app \<noteq> [] \<and> CHR ''.'' \<notin> set service \<and> CHR ''.'' \<notin> set app)
      \<longrightarrow> parseTarget target = ([], [], False))"
proof (intro conjI allI impI)
  fix u service app
  assume h: "url_Parse target = Inr u
      \<and> Hostname u = service @ ''.'' @ app @ ''.svc.cluster.local''
      \<and> service \<noteq> [] \<and> app \<noteq> [] \<and> CHR ''.'' \<notin> set service \<and> CHR ''.'' \<notin> set app"
  then have m: "targetParser_FindStringSubmatch (Hostname u) = [Hostname u, service, app]"
    using FindStringSubmatch_match [of service app] by simp
  from h have "url_Parse target = Inr u" by simp
  from parseTarget_Inr [OF this] m show "parseTarget target = (service, app, True)"
    by simp
next
  assume n: "\<not> (\<exists>u service app.
      url_Parse target = Inr u
      \<and> Hostname u = service @ ''.'' @ app @ ''.svc.cluster.local''
      \<and> service \<noteq> [] \<and> app \<noteq> [] \<and> CHR ''.'' \<notin> set service \<and> CHR ''.'' \<notin> set app)"
  show "parseTarget target = ([], [], False)"
  proof (cases "url_Parse target")
    case (Inl e)
    then show ?thesis by (rule parseTarget_Inl)
  next
    case (Inr u)
    have "targetParser_FindStringSubmatch (Hostname u) = []"
    proof (rule ccontr)
      assume "targetParser_FindStringSubmatch (Hostname u) \<noteq> []"
      from FindStringSubmatch_sound [OF this] Inr n show False by blast
    qed
    with parseTarget_Inr [OF Inr] show ?thesis by simp
  qed
qed

lemma url_Parse_bare:
  "url_Parse ''web.myapp.svc.cluster.local''
     = Inr (URL_zero\<lparr>Path := ''web.myapp.svc.cluster.local''\<rparr>)"
  by code_simp

lemma url_Parse_internal:
  "url_Parse ''http://web.myapp.svc.cluster.local:3000''
     = Inr (URL_zero\<lparr>Scheme := ''http'', Host := ''web.myapp.svc.cluster.local:3000''\<rparr>)"
  by code_simp

lemma url_Parse_external:
  "url_Parse ''http://10.0.0.1:3000''
     = Inr (URL_zero\<lparr>Scheme := ''http'', Host := ''10.0.0.1:3000''\<rparr>)"
  by code_simp

theorem parseTarget_hostname_witness:
  "parseTarget ''http://web.myapp.svc.cluster.local:3000'' = (''web'', ''myapp'', True)
   \<and> parseTarget ''http://10.0.0.1:3000'' = ([], [], False)"
proof -
  let ?u = "URL_zero\<lparr>Scheme := ''http'', Host := ''web.myapp.svc.cluster.local:3000''\<rparr>"
  let ?v = "URL_zero\<lparr>Scheme := ''http'', Host := ''10.0.0.1:3000''\<rparr>"
  have hu: "Hostname ?u = ''web'' @ ''.'' @ ''myapp'' @ ''.svc.cluster.local''"
    by code_simp
  have a: "parseTarget ''http://web.myapp.svc.cluster.local:3000'' = (''web'', ''myapp'', True)"
    using parseTarget_hostname [of "''http://web.myapp.svc.cluster.local:3000''",
        THEN conjunct1, rule_format, of ?u "''web''" "''myapp''"]
      url_Parse_internal hu
    by simp
  have hv: "targetParser_FindStringSubmatch (Hostname ?v) = []"
    by code_simp
  have none: "\<not> (\<exists>u service app.
      url_Parse ''http://10.0.0.1:3000'' = Inr u
      \<and> Hostname u = service @ ''.'' @ app @ ''.svc.cluster.local''
      \<and> service \<noteq> [] \<and> app \<noteq> [] \<and> CHR ''.'' \<notin> set service \<and> CHR ''.'' \<notin> set app)"
  proof
    assume "\<exists>u service app.
      url_Parse ''http://10.0.0.1:3000'' = Inr u
      \<and> Hostname u = service @ ''.'' @ app @ ''.svc.cluster.local''
      \<and> service \<noteq> [] \<and> app \<noteq> [] \<and> CHR ''.'' \<notin> set service \<and> CHR ''.'' \<notin> set app"
    then obtain u service app where
      p: "url_Parse ''http://10.0.0.1:3000'' = Inr u"
      and h: "Hostname u = service @ ''.'' @ app @ ''.svc.cluster.local''"
      and c: "service \<noteq> []" "app \<noteq> []" "CHR ''.'' \<notin> set service" "CHR ''.'' \<notin> set app"
      by blast
    from p have "u = ?v" by (simp only: url_Parse_external sum.inject)
    with h FindStringSubmatch_match [OF c] hv show False by simp
  qed
  have b: "parseTarget ''http://10.0.0.1:3000'' = ([], [], False)"
    using parseTarget_hostname [of "''http://10.0.0.1:3000''", THEN conjunct2, rule_format,
        OF none] .
  from a b show ?thesis by (rule conjI)
qed

text \<open>
  The claim as stated fails in both directions. The string
  \<open>web.myapp.svc.cluster.local\<close> is of the internal form, but as a URL it is a path
  without a host, so the result is ("", "", false). The string
  \<open>http://web.myapp.svc.cluster.local:3000\<close> is not of the internal form (it does not
  end with \<open>.svc.cluster.local\<close>), and the result is (web, myapp, true).
\<close>

theorem parseTarget_internal_form_counterexample:
  "parseTarget ''web.myapp.svc.cluster.local'' = ([], [], False)
   \<and> parseTarget ''web.myapp.svc.cluster.local'' \<noteq> (''web'', ''myapp'', True)
   \<and> parseTarget ''http://web.myapp.svc.cluster.local:3000'' = (''web'', ''myapp'', True)"
  by code_simp

text \<open>
  The URL that \<open>redirectHTTPS\<close> passes to \<open>http.Redirect\<close> starts with \<open>https:\<close>, so
  when \<open>url.Parse\<close> accepts it, it has a scheme: \<open>http.Redirect\<close> does not rewrite it.
\<close>

lemma split_fragment_https:
  "fst (split (''https:'' @ t) ''#'' True) = ''https:'' @ fst (split t ''#'' True)"
  by (simp add: split_def HasPrefix_def split: option.splits)

lemma getscheme_https: "getscheme (''https:'' @ t) = Inr (''https'', t)"
  by (simp add: getscheme_def isLetter_def isDigit_def)

lemma setPath_Scheme: "setPath u p = Inr v \<Longrightarrow> Scheme v = Scheme u"
  by (auto simp: setPath_def split: sum.splits)

lemma url_parse_Scheme:
  assumes "url_parse raw = Inr u" and "getscheme raw = Inr (scheme, rest)" and "raw \<noteq> ''*''"
  shows "Scheme u = map toLower scheme"
  using assms
  by (auto simp: url_parse_def Let_def split: if_splits sum.splits dest!: setPath_Scheme)

lemma url_Parse_https:
  assumes "url_Parse (''https:'' @ t) = Inr u"
  shows "Scheme u = ''https''"
proof -
  let ?raw = "''https:'' @ fst (split t ''#'' True)"
  have low: "map toLower ''https'' = ''https''" by (simp add: toLower_def)
  have star: "?raw \<noteq> ''*''" by simp
  from assms obtain v where v: "url_parse ?raw = Inr v" and s: "Scheme u = Scheme v"
    unfolding url_Parse_def split_fragment_https
    by (auto split: sum.splits if_splits)
  from url_parse_Scheme [OF v getscheme_https star] s low show ?thesis by simp
qed

lemma URL_String_https_prefix:
  "\<exists>t. URL_String (URL_zero\<lparr>Scheme := ''https'', Host := h, Path := p, RawQuery := q\<rparr>)
    = ''https:'' @ t"
  by (simp add: URL_String_def URL_zero_def Let_def)

lemma redirect_target_has_scheme:
  assumes "url_Parse (URL_String (URL_zero\<lparr>Scheme := ''https'', Host := h, Path := p,
      RawQuery := q\<rparr>)) = Inr u"
  shows "Scheme u \<noteq> []"
proof -
  obtain t where "URL_String (URL_zero\<lparr>Scheme := ''https'', Host := h, Path := p,
      RawQuery := q\<rparr>) = ''https:'' @ t"
    using URL_String_https_prefix by blast
  with assms have "url_Parse (''https:'' @ t) = Inr u" by simp
  then have "Scheme u = ''https''" by (rule url_Parse_https)
  then show ?thesis by simp
qed

end
